theory Spec2Isabelle
  imports Main
begin

section \<open>The ESMF backend of xESMF (xesmf/backend.py)\<close>

text \<open>
  The module wraps ESMPy: it builds ESMF grids from numpy arrays, builds a regridding
  operator for a pair of grids, applies it and releases it. The embedding follows the
  module function by function. numpy and ESMF are libraries the module calls; the part
  of their behaviour the module relies on is written out below (array shapes, the
  broadcasting assignment \<^verbatim>\<open>a[...] = b\<close>, the objects Grid, Field and Regrid with the
  attributes the module reads), and the numerical engine of ESMF is a parameter.

  Python runs with assertions enabled. The action of Python's warning filter is a
  parameter of the functions that warn; the functions under the names of the source
  are the ones under the default action, which is what Python has when nothing is
  configured.
\<close>

subsection \<open>Exceptions\<close>

text \<open>
  \<^item> \<open>AssertionError m\<close>: a failed \<^verbatim>\<open>assert cond, m\<close>;
  \<^item> \<open>ValueError m\<close>: \<^verbatim>\<open>raise ValueError(m)\<close>;
  \<^item> \<open>BroadcastError s d\<close>: the ValueError of numpy "could not broadcast input array
    from shape s into shape d", raised by an assignment into an array;
  \<^item> \<open>EngineError m\<close>: an exception raised inside ESMF;
  \<^item> \<open>UserWarning m\<close>: the warning \<^verbatim>\<open>warnings.warn(m)\<close> raised as an exception, as
    the filter action \<^verbatim>\<open>error\<close> has it.
\<close>

datatype error =
    AssertionError string
  | ValueError string
  | BroadcastError "nat list" "nat list"
  | EngineError string
  | UserWarning string

subsection \<open>numpy arrays\<close>

text \<open>
  An array has a shape, the flag \<^verbatim>\<open>flags['F_CONTIGUOUS']\<close> and its elements, addressed
  by index tuples.
\<close>

record 'a ndarray =
  shape :: "nat list"
  f_contiguous :: bool
  elems :: "nat list \<Rightarrow> 'a"

definition ndim :: "'a ndarray \<Rightarrow> nat" where
  "ndim a = length (shape a)"

text \<open>
  The assignment \<^verbatim>\<open>dst[...] = src\<close> broadcasts \<open>src\<close> to the shape of \<open>dst\<close>: leading
  dimensions of size 1 that \<open>src\<close> has in excess are dropped, then the shapes are
  aligned at their last dimension and every dimension of \<open>src\<close> must equal that of
  \<open>dst\<close> or be 1. The element at an index of \<open>dst\<close> is read from \<open>src\<close> at the same
  index, with 0 in the dimensions of size 1. When the shapes do not fit, the error
  names the shape of \<open>src\<close> as it is after the excess leading dimensions of size 1
  are dropped. The elements are values of one type throughout: the conversion to the
  element type of \<open>dst\<close> (float64 for the arrays of ESMF) that numpy performs on
  assignment is not represented.
\<close>

fun strip_unit :: "nat \<Rightarrow> nat list \<Rightarrow> nat list" where
  "strip_unit n [] = []"
| "strip_unit n (s # ss) = (if n < length (s # ss) \<and> s = 1 then strip_unit n ss else s # ss)"

fun compatible_rev :: "nat list \<Rightarrow> nat list \<Rightarrow> bool" where
  "compatible_rev [] ds = True"
| "compatible_rev (s # ss) [] = False"
| "compatible_rev (s # ss) (d # ds) = ((s = d \<or> s = 1) \<and> compatible_rev ss ds)"

definition can_broadcast :: "nat list \<Rightarrow> nat list \<Rightarrow> bool" where
  "can_broadcast src dst = compatible_rev (rev (strip_unit (length dst) src)) (rev dst)"

fun src_index_rev :: "nat list \<Rightarrow> nat list \<Rightarrow> nat list" where
  "src_index_rev [] js = []"
| "src_index_rev (s # ss) [] = []"
| "src_index_rev (s # ss) (j # js) = (if s = 1 then 0 else j) # src_index_rev ss js"

definition src_index :: "nat list \<Rightarrow> nat list \<Rightarrow> nat list" where
  "src_index sshape idx =
     (let s' = strip_unit (length idx) sshape
      in replicate (length sshape - length s') 0 @ rev (src_index_rev (rev s') (rev idx)))"

definition setitem_ellipsis :: "'a ndarray \<Rightarrow> 'a ndarray \<Rightarrow> error + 'a ndarray" where
  "setitem_ellipsis dst src =
     (if can_broadcast (shape src) (shape dst)
      then Inr (dst\<lparr>elems := (\<lambda>idx. elems src (src_index (shape src) idx))\<rparr>)
      else Inl (BroadcastError (strip_unit (length (shape dst)) (shape src)) (shape dst)))"

subsection \<open>The process state\<close>

text \<open>
  \<^item> \<open>warnings\<close>: the warnings shown so far, oldest first;
  \<^item> \<open>registry\<close>: the warning texts that the module's \<^verbatim>\<open>__warningregistry__\<close> holds,
    that is, the warnings of this module that have been shown once and are not shown
    again under a once-only action (the module has one line that warns, so the text
    stands for the key of text, category and line);
  \<^item> \<open>files\<close>: the paths that exist, with the weights a weight file holds;
  \<^item> \<open>heap\<close>: the arrays owned by ESMF fields, by reference; \<open>next_ref\<close> is the next
    unused reference;
  \<^item> \<open>engine_calls\<close>: how often the regridding engine of ESMF has been entered (the
    weight computation of \<^verbatim>\<open>ESMF.Regrid(...)\<close> and the application \<^verbatim>\<open>regrid(src, dst)\<close>);
  \<^item> \<open>released\<close>: the references whose memory ESMF has freed. numpy keeps no record
    of this: the array object keeps its shape and its pointer, and an assignment into
    it is carried out as on any array (in the program, a write to freed memory).
\<close>

record ('a, 'w) world =
  warnings :: "string list"
  registry :: "string set"
  files :: "string \<Rightarrow> 'w option"
  heap :: "nat \<Rightarrow> 'a ndarray"
  next_ref :: nat
  engine_calls :: nat
  released :: "nat set"

subsection \<open>ESMF objects\<close>

datatype staggerloc = CENTER | CORNER

datatype regrid_method = BILINEAR | CONSERVE | PATCH | NEAREST_STOD | NEAREST_DTOS

text \<open>
  A Grid has \<^verbatim>\<open>max_index\<close> (the number of cells per dimension), coordinate arrays
  (longitude, latitude) per stagger location once they are allocated, and
  \<^verbatim>\<open>has_corners\<close>.
\<close>

record 'a grid =
  max_index :: "nat list"
  coords :: "staggerloc \<Rightarrow> ('a ndarray \<times> 'a ndarray) option"
  has_corners :: bool

text \<open>
  A Field has its array \<^verbatim>\<open>data\<close> (a reference into the heap) and the flag
  \<^verbatim>\<open>finalized\<close>, here \<open>field_finalized\<close>. A Regrid has its two fields, the weights
  and the flag \<^verbatim>\<open>finalized\<close>. The flags are set by \<^verbatim>\<open>destroy()\<close>.
\<close>

record field =
  data :: nat
  field_finalized :: bool

record 'w regrid =
  srcfield :: field
  dstfield :: field
  routehandle :: 'w
  finalized :: bool

text \<open>
  What the module cannot see of ESMF is a parameter: \<open>uninit\<close> is the content of newly
  allocated memory; \<open>regrid_compute\<close> is the weight computation for two grids and a
  method; \<open>regrid_run\<close> is the application of an operator to the source array, given
  the destination array as it stands, and yields the new elements of the destination
  array.
\<close>

record ('a, 'w) esmf =
  uninit :: "nat list \<Rightarrow> 'a"
  regrid_compute :: "'a grid \<Rightarrow> 'a grid \<Rightarrow> regrid_method \<Rightarrow> error + 'w"
  regrid_run :: "'w regrid \<Rightarrow> 'a ndarray \<Rightarrow> 'a ndarray \<Rightarrow> error + (nat list \<Rightarrow> 'a)"

definition alloc :: "(nat list \<Rightarrow> 'a) \<Rightarrow> nat list \<Rightarrow> 'a ndarray" where
  "alloc mem shp = \<lparr>shape = shp, f_contiguous = True, elems = mem\<rparr>"

text \<open>\<^verbatim>\<open>ESMF.Grid(max_index, staggerloc=CENTER, coord_sys=SPH_DEG)\<close>\<close>

definition ESMF_Grid :: "('a, 'w) esmf \<Rightarrow> nat list \<Rightarrow> 'a grid" where
  "ESMF_Grid lib max_idx =
     \<lparr>max_index = max_idx,
      coords = (\<lambda>st. if st = CENTER
                      then Some (alloc (uninit lib) max_idx, alloc (uninit lib) max_idx)
                      else None),
      has_corners = False\<rparr>"

text \<open>\<^verbatim>\<open>grid.add_coords(staggerloc=CORNER)\<close>: one corner more than cells in each dimension.\<close>

definition add_coords :: "('a, 'w) esmf \<Rightarrow> staggerloc \<Rightarrow> 'a grid \<Rightarrow> 'a grid" where
  "add_coords lib st g =
     (let shp = (if st = CORNER then map Suc (max_index g) else max_index g)
      in g\<lparr>coords := (coords g)(st := Some (alloc (uninit lib) shp, alloc (uninit lib) shp)),
           has_corners := (has_corners g \<or> st = CORNER)\<rparr>)"

text \<open>\<^verbatim>\<open>grid.get_coords(coord_dim, staggerloc)\<close> returns the array itself.\<close>

definition get_coords :: "'a grid \<Rightarrow> nat \<Rightarrow> staggerloc \<Rightarrow> error + 'a ndarray" where
  "get_coords g coord_dim st =
     (case coords g st of
        None \<Rightarrow> Inl (EngineError ''coordinates are not allocated'')
      | Some (lo, la) \<Rightarrow> Inr (if coord_dim = 0 then lo else la))"

text \<open>
  \<^verbatim>\<open>pointer[...] = a\<close> for a pointer obtained from \<open>get_coords\<close>: the assignment
  changes the array of the grid.
\<close>

definition put_coords :: "'a grid \<Rightarrow> nat \<Rightarrow> staggerloc \<Rightarrow> 'a ndarray \<Rightarrow> 'a grid" where
  "put_coords g coord_dim st a =
     (case coords g st of
        None \<Rightarrow> g
      | Some (lo, la) \<Rightarrow>
          g\<lparr>coords := (coords g)(st := Some (if coord_dim = 0 then (a, la) else (lo, a)))\<rparr>)"

text \<open>
  \<^verbatim>\<open>ESMF.Field(grid, ndbounds=extra_dims)\<close>: a new array of the grid's shape followed by
  the extra dimensions (none when \<^verbatim>\<open>ndbounds\<close> is \<^verbatim>\<open>None\<close>).
\<close>

definition ndbounds_list :: "nat list option \<Rightarrow> nat list" where
  "ndbounds_list ndbounds = (case ndbounds of None \<Rightarrow> [] | Some ds \<Rightarrow> ds)"

definition ESMF_Field ::
  "('a, 'w) esmf \<Rightarrow> 'a grid \<Rightarrow> nat list option \<Rightarrow> ('a, 'w) world \<Rightarrow> field \<times> ('a, 'w) world" where
  "ESMF_Field lib g ndbounds w =
     (\<lparr>data = next_ref w, field_finalized = False\<rparr>,
      w\<lparr>heap := (heap w)(next_ref w :=
             alloc (uninit lib) (max_index g @ ndbounds_list ndbounds)),
        next_ref := Suc (next_ref w)\<rparr>)"

text \<open>
  \<^verbatim>\<open>ESMF.Regrid(sourcefield, destfield, filename=..., regrid_method=...,
  unmapped_action=IGNORE)\<close>: the engine computes the weights, and writes them to the
  file when a name is given.
\<close>

definition ESMF_Regrid ::
  "('a, 'w) esmf \<Rightarrow> 'a grid \<Rightarrow> 'a grid \<Rightarrow> field \<Rightarrow> field \<Rightarrow> string option \<Rightarrow> regrid_method \<Rightarrow>
     ('a, 'w) world \<Rightarrow> (error + 'w regrid) \<times> ('a, 'w) world" where
  "ESMF_Regrid lib sg dg sf df filename m w =
     (let w' = w\<lparr>engine_calls := Suc (engine_calls w)\<rparr>
      in case regrid_compute lib sg dg m of
           Inl e \<Rightarrow> (Inl e, w')
         | Inr rh \<Rightarrow>
             (Inr \<lparr>srcfield = sf, dstfield = df, routehandle = rh, finalized = False\<rparr>,
              case filename of
                None \<Rightarrow> w'
              | Some f \<Rightarrow> w'\<lparr>files := (files w')(f := Some rh)\<rparr>))"

text \<open>
  \<^verbatim>\<open>regrid(sourcefield, destfield)\<close>: the engine fills the array of the destination
  field in place and the call returns the destination field.
\<close>

definition Regrid_call ::
  "('a, 'w) esmf \<Rightarrow> 'w regrid \<Rightarrow> field \<Rightarrow> field \<Rightarrow> ('a, 'w) world \<Rightarrow>
     (error + field) \<times> ('a, 'w) world" where
  "Regrid_call lib r sf df w =
     (let w' = w\<lparr>engine_calls := Suc (engine_calls w)\<rparr>
      in case regrid_run lib r (heap w (data sf)) (heap w (data df)) of
           Inl e \<Rightarrow> (Inl e, w')
         | Inr out \<Rightarrow>
             (Inr df, w'\<lparr>heap := (heap w')(data df := (heap w' (data df))\<lparr>elems := out\<rparr>)\<rparr>))"



subsection \<open>warn_f_contiguous\<close>

text \<open>
  \<^verbatim>\<open>
  if not a.flags['F_CONTIGUOUS']:
      warnings.warn("Input array is not F_CONTIGUOUS. "
                    "Will affect performance.")
  \<close>
\<close>

definition f_warning :: string where
  "f_warning = ''Input array is not F_CONTIGUOUS. Will affect performance.''"

text \<open>
  \<^verbatim>\<open>warnings.warn(msg)\<close>, by the action that Python's warning filter gives for the
  warning:
  \<^item> \<^verbatim>\<open>error\<close>: the warning is raised as an exception;
  \<^item> \<^verbatim>\<open>ignore\<close>: nothing happens;
  \<^item> \<^verbatim>\<open>always\<close>: the warning is shown;
  \<^item> \<^verbatim>\<open>default\<close>, \<^verbatim>\<open>module\<close>, \<^verbatim>\<open>once\<close>: the warning is shown unless the registry
    holds it, and is entered in the registry. (The three differ in the key, by line,
    by module or by text alone; for a module with one line that warns they agree.)
  The default action, which applies when no filter is configured, is \<^verbatim>\<open>default\<close>.
  Python empties the registry whenever the filters are changed, so the registry is
  looked at under the once-only actions alone.
\<close>

datatype filter_action =
    default_action | error_action | ignore_action | always_action | module_action | once_action

definition warnings_warn ::
  "filter_action \<Rightarrow> string \<Rightarrow> ('a, 'w) world \<Rightarrow> (error + unit) \<times> ('a, 'w) world" where
  "warnings_warn act msg w =
     (if act = error_action then (Inl (UserWarning msg), w)
      else if act = ignore_action then (Inr (), w)
      else if act = always_action then (Inr (), w\<lparr>warnings := warnings w @ [msg]\<rparr>)
      else if msg \<in> registry w then (Inr (), w)
      else (Inr (), w\<lparr>warnings := warnings w @ [msg], registry := insert msg (registry w)\<rparr>))"

definition warn_f_contiguous_under ::
  "filter_action \<Rightarrow> 'a ndarray \<Rightarrow> ('a, 'w) world \<Rightarrow> (error + unit) \<times> ('a, 'w) world" where
  "warn_f_contiguous_under act a w =
     (if \<not> f_contiguous a then warnings_warn act f_warning w else (Inr (), w))"

text \<open>\<^verbatim>\<open>for a in arrays: warn_f_contiguous(a)\<close>; the loop ends where a call raises.\<close>

fun warn_each ::
  "filter_action \<Rightarrow> 'a ndarray list \<Rightarrow> ('a, 'w) world \<Rightarrow> (error + unit) \<times> ('a, 'w) world" where
  "warn_each act [] w = (Inr (), w)"
| "warn_each act (a # as) w =
     (case warn_f_contiguous_under act a w of
        (Inl e, w') \<Rightarrow> (Inl e, w')
      | (Inr u, w') \<Rightarrow> warn_each act as w')"

text \<open>
  Under the default action the call does not raise: \<open>warn_f_contiguous\<close> is the state
  it leaves.
\<close>

definition warn_f_contiguous :: "'a ndarray \<Rightarrow> ('a, 'w) world \<Rightarrow> ('a, 'w) world" where
  "warn_f_contiguous a w = snd (warn_f_contiguous_under default_action a w)"

subsection \<open>esmf_grid\<close>

text \<open>
  \<^verbatim>\<open>
  for a in [lon, lat]:
      warn_f_contiguous(a)
  assert lon.ndim == 2, "Input grid must be 2D array"
  assert lon.shape == lat.shape, "lon and lat must have same shape"
  staggerloc = ESMF.StaggerLoc.CENTER
  grid = ESMF.Grid(np.array(lon.shape), staggerloc=staggerloc,
                   coord_sys=ESMF.CoordSys.SPH_DEG)
  lon_pointer = grid.get_coords(coord_dim=0, staggerloc=staggerloc)
  lat_pointer = grid.get_coords(coord_dim=1, staggerloc=staggerloc)
  lon_pointer[...] = lon
  lat_pointer[...] = lat
  return grid
  \<close>
\<close>

definition esmf_grid_under ::
  "filter_action \<Rightarrow> ('a, 'w) esmf \<Rightarrow> 'a ndarray \<Rightarrow> 'a ndarray \<Rightarrow> ('a, 'w) world \<Rightarrow>
     (error + 'a grid) \<times> ('a, 'w) world" where
  "esmf_grid_under act lib lon lat w0 =
     (case warn_each act [lon, lat] w0 of
        (Inl e, w) \<Rightarrow> (Inl e, w)
      | (Inr u, w) \<Rightarrow>
     (if ndim lon \<noteq> 2 then (Inl (AssertionError ''Input grid must be 2D array''), w)
      else if shape lon \<noteq> shape lat
        then (Inl (AssertionError ''lon and lat must have same shape''), w)
      else
        let staggerloc = CENTER;
            grid = ESMF_Grid lib (shape lon)
        in case get_coords grid 0 staggerloc of
             Inl e \<Rightarrow> (Inl e, w)
           | Inr lon_pointer \<Rightarrow>
        (case get_coords grid 1 staggerloc of
             Inl e \<Rightarrow> (Inl e, w)
           | Inr lat_pointer \<Rightarrow>
        (case setitem_ellipsis lon_pointer lon of
             Inl e \<Rightarrow> (Inl e, w)
           | Inr lon_pointer' \<Rightarrow>
        (case setitem_ellipsis lat_pointer lat of
             Inl e \<Rightarrow> (Inl e, w)
           | Inr lat_pointer' \<Rightarrow>
               (Inr (put_coords (put_coords grid 0 staggerloc lon_pointer')
                       1 staggerloc lat_pointer'), w))))))"

text \<open>The function under Python's default action.\<close>

definition esmf_grid ::
  "('a, 'w) esmf \<Rightarrow> 'a ndarray \<Rightarrow> 'a ndarray \<Rightarrow> ('a, 'w) world \<Rightarrow>
     (error + 'a grid) \<times> ('a, 'w) world" where
  "esmf_grid lib lon lat w0 = esmf_grid_under default_action lib lon lat w0"

subsection \<open>add_corner\<close>

text \<open>
  \<^verbatim>\<open>
  staggerloc = ESMF.StaggerLoc.CORNER
  for a in [lon_b, lat_b]:
      warn_f_contiguous(a)
  assert lon_b.ndim == 2, "Input grid must be 2D array"
  assert lon_b.shape == lat_b.shape, "lon_b and lat_b must have same shape"
  assert np.array_equal(lon_b.shape, grid.max_index+1), (
         "lon_b should be size (Nx+1, Ny+1)")
  grid.add_coords(staggerloc=staggerloc)
  lon_b_pointer = grid.get_coords(coord_dim=0, staggerloc=staggerloc)
  lat_b_pointer = grid.get_coords(coord_dim=1, staggerloc=staggerloc)
  lon_b_pointer[...] = lon_b
  lat_b_pointer[...] = lat_b
  \<close>
  The grid is changed in place: the function returns the grid as the call leaves it,
  also when the call raises.
\<close>

definition add_corner_under ::
  "filter_action \<Rightarrow> ('a, 'w) esmf \<Rightarrow> 'a grid \<Rightarrow> 'a ndarray \<Rightarrow> 'a ndarray \<Rightarrow> ('a, 'w) world \<Rightarrow>
     (error + unit) \<times> 'a grid \<times> ('a, 'w) world" where
  "add_corner_under act lib grid lon_b lat_b w0 =
     (let staggerloc = CORNER in
      case warn_each act [lon_b, lat_b] w0 of
        (Inl e, w) \<Rightarrow> (Inl e, grid, w)
      | (Inr u, w) \<Rightarrow>
     (if ndim lon_b \<noteq> 2 then (Inl (AssertionError ''Input grid must be 2D array''), grid, w)
      else if shape lon_b \<noteq> shape lat_b
        then (Inl (AssertionError ''lon_b and lat_b must have same shape''), grid, w)
      else if shape lon_b \<noteq> map Suc (max_index grid)
        then (Inl (AssertionError ''lon_b should be size (Nx+1, Ny+1)''), grid, w)
      else
        let g1 = add_coords lib staggerloc grid
        in case get_coords g1 0 staggerloc of
             Inl e \<Rightarrow> (Inl e, g1, w)
           | Inr lon_b_pointer \<Rightarrow>
        (case get_coords g1 1 staggerloc of
             Inl e \<Rightarrow> (Inl e, g1, w)
           | Inr lat_b_pointer \<Rightarrow>
        (case setitem_ellipsis lon_b_pointer lon_b of
             Inl e \<Rightarrow> (Inl e, g1, w)
           | Inr lon_b_pointer' \<Rightarrow>
        (let g2 = put_coords g1 0 staggerloc lon_b_pointer'
         in case setitem_ellipsis lat_b_pointer lat_b of
             Inl e \<Rightarrow> (Inl e, g2, w)
           | Inr lat_b_pointer' \<Rightarrow>
               (Inr (), put_coords g2 1 staggerloc lat_b_pointer', w))))))"

text \<open>The function under Python's default action.\<close>

definition add_corner ::
  "('a, 'w) esmf \<Rightarrow> 'a grid \<Rightarrow> 'a ndarray \<Rightarrow> 'a ndarray \<Rightarrow> ('a, 'w) world \<Rightarrow>
     (error + unit) \<times> 'a grid \<times> ('a, 'w) world" where
  "add_corner lib grid lon_b lat_b w0 = add_corner_under default_action lib grid lon_b lat_b w0"

subsection \<open>esmf_regrid_build\<close>

text \<open>
  \<^verbatim>\<open>
  method_dict = {'bilinear': ESMF.RegridMethod.BILINEAR,
                 'conservative': ESMF.RegridMethod.CONSERVE,
                 'patch': ESMF.RegridMethod.PATCH,
                 'nearest_s2d': ESMF.RegridMethod.NEAREST_STOD,
                 'nearest_d2s': ESMF.RegridMethod.NEAREST_DTOS
                 }
  try:
      esmf_regrid_method = method_dict[method]
  except:
      raise ValueError('method should be chosen from '
                       '{}'.format(list(method_dict.keys())))
  \<close>
  The dictionary is an association list in the order of the source, which is the
  order in which Python (3.7 and later) lists the keys; \<open>py_str_list\<close> is Python's
  text of a list of strings, \<^verbatim>\<open>['a', 'b']\<close>.
\<close>

definition method_dict :: "(string \<times> regrid_method) list" where
  "method_dict =
     [(''bilinear'', BILINEAR),
      (''conservative'', CONSERVE),
      (''patch'', PATCH),
      (''nearest_s2d'', NEAREST_STOD),
      (''nearest_d2s'', NEAREST_DTOS)]"

definition py_repr :: "string \<Rightarrow> string" where
  "py_repr s = CHR 0x27 # s @ [CHR 0x27]"

fun join :: "string \<Rightarrow> string list \<Rightarrow> string" where
  "join sep [] = []"
| "join sep [x] = x"
| "join sep (x # y # ys) = x @ sep @ join sep (y # ys)"

definition py_str_list :: "string list \<Rightarrow> string" where
  "py_str_list xs = ''['' @ join '', '' (map py_repr xs) @ '']''"

text \<open>
  \<^verbatim>\<open>
  if method == 'conservative':
      if not sourcegrid.has_corners:
          raise ValueError('source grid has no corner information. '
                           'cannot use conservative regridding.')
      if not destgrid.has_corners:
          raise ValueError('destination grid has no corner information. '
                           'cannot use conservative regridding.')
  sourcefield = ESMF.Field(sourcegrid, ndbounds=extra_dims)
  destfield = ESMF.Field(destgrid, ndbounds=extra_dims)
  if filename is not None:
      assert not os.path.exists(filename), (
          'Weight file already exists! Please remove it or use a new name.')
  regrid = ESMF.Regrid(sourcefield, destfield, filename=filename,
                       regrid_method=esmf_regrid_method,
                       unmapped_action=ESMF.UnmappedAction.IGNORE)
  return regrid
  \<close>
\<close>

definition path_exists :: "('a, 'w) world \<Rightarrow> string \<Rightarrow> bool" where
  "path_exists w f = (files w f \<noteq> None)"

definition esmf_regrid_build ::
  "('a, 'w) esmf \<Rightarrow> 'a grid \<Rightarrow> 'a grid \<Rightarrow> string \<Rightarrow> string option \<Rightarrow> nat list option \<Rightarrow>
     ('a, 'w) world \<Rightarrow> (error + 'w regrid) \<times> ('a, 'w) world" where
  "esmf_regrid_build lib sourcegrid destgrid method filename extra_dims w =
     (case map_of method_dict method of
        None \<Rightarrow>
          (Inl (ValueError (''method should be chosen from ''
                  @ py_str_list (map fst method_dict))), w)
      | Some esmf_regrid_method \<Rightarrow>
          if method = ''conservative'' \<and> \<not> has_corners sourcegrid
            then (Inl (ValueError (''source grid has no corner information. ''
                    @ ''cannot use conservative regridding.'')), w)
          else if method = ''conservative'' \<and> \<not> has_corners destgrid
            then (Inl (ValueError (''destination grid has no corner information. ''
                    @ ''cannot use conservative regridding.'')), w)
          else
            (case ESMF_Field lib sourcegrid extra_dims w of (sourcefield, w1) \<Rightarrow>
            (case ESMF_Field lib destgrid extra_dims w1 of (destfield, w2) \<Rightarrow>
               if (case filename of None \<Rightarrow> False | Some f \<Rightarrow> path_exists w2 f)
                 then (Inl (AssertionError
                         ''Weight file already exists! Please remove it or use a new name.''), w2)
               else ESMF_Regrid lib sourcegrid destgrid sourcefield destfield filename
                      esmf_regrid_method w2)))"

subsection \<open>esmf_regrid_apply\<close>

text \<open>
  \<^verbatim>\<open>
  warn_f_contiguous(indata)
  sourcefield = regrid.srcfield
  destfield = regrid.dstfield
  sourcefield.data[...] = indata
  destfield = regrid(sourcefield, destfield)
  return destfield.data
  \<close>
  The value returned is the array object of the destination field, that is, its
  reference in the heap.
\<close>

definition esmf_regrid_apply_under ::
  "filter_action \<Rightarrow> ('a, 'w) esmf \<Rightarrow> 'w regrid \<Rightarrow> 'a ndarray \<Rightarrow> ('a, 'w) world \<Rightarrow>
     (error + nat) \<times> ('a, 'w) world" where
  "esmf_regrid_apply_under act lib r indata w0 =
     (case warn_f_contiguous_under act indata w0 of
        (Inl e, w) \<Rightarrow> (Inl e, w)
      | (Inr u, w) \<Rightarrow>
     (let sourcefield = srcfield r;
          destfield = dstfield r
      in case setitem_ellipsis (heap w (data sourcefield)) indata of
           Inl e \<Rightarrow> (Inl e, w)
         | Inr src' \<Rightarrow>
             (case Regrid_call lib r sourcefield destfield
                     (w\<lparr>heap := (heap w)(data sourcefield := src')\<rparr>) of
                (Inl e, w2) \<Rightarrow> (Inl e, w2)
              | (Inr destfield', w2) \<Rightarrow> (Inr (data destfield'), w2))))"

text \<open>The function under Python's default action.\<close>

definition esmf_regrid_apply ::
  "('a, 'w) esmf \<Rightarrow> 'w regrid \<Rightarrow> 'a ndarray \<Rightarrow> ('a, 'w) world \<Rightarrow>
     (error + nat) \<times> ('a, 'w) world" where
  "esmf_regrid_apply lib r indata w0 = esmf_regrid_apply_under default_action lib r indata w0"

text \<open>
  Successive calls on one operator: the state after the operator has been applied to
  each array of a list in turn (a call that raises leaves the state it had reached).
\<close>

fun apply_many ::
  "('a, 'w) esmf \<Rightarrow> 'w regrid \<Rightarrow> 'a ndarray list \<Rightarrow> ('a, 'w) world \<Rightarrow> ('a, 'w) world" where
  "apply_many lib r [] w = w"
| "apply_many lib r (a # as) w = apply_many lib r as (snd (esmf_regrid_apply lib r a w))"

subsection \<open>esmf_regrid_finalize\<close>


subsection \<open>Concrete inputs\<close>

text \<open>
  An engine for examples, over integer data and with no weights to speak of: the
  weight computation always succeeds, and the application copies the source array to
  the destination (the identity operator on equal grids). \<open>strict_lib\<close> is the same
  engine, except that it refuses an operator or a field that is finalized.
\<close>

definition copy_lib :: "(int, unit) esmf" where
  "copy_lib =
     \<lparr>uninit = (\<lambda>idx. 0),
      regrid_compute = (\<lambda>sg dg m. Inr ()),
      regrid_run = (\<lambda>r src dst. Inr (elems src))\<rparr>"


definition world0 :: "(int, unit) world" where
  "world0 =
     \<lparr>warnings = [],
      registry = {},
      files = (\<lambda>f. if f = ''weights.nc'' then Some () else None),
      heap = (\<lambda>p. \<lparr>shape = [], f_contiguous = True, elems = (\<lambda>idx. 0)\<rparr>),
      next_ref = 0,
      engine_calls = 0,
      released = {}\<rparr>"

text \<open>\<open>const_array shp fc v\<close>: an array of shape \<open>shp\<close> filled with \<open>v\<close>.\<close>

definition const_array :: "nat list \<Rightarrow> bool \<Rightarrow> int \<Rightarrow> int ndarray" where
  "const_array shp fc v = \<lparr>shape = shp, f_contiguous = fc, elems = (\<lambda>idx. v)\<rparr>"

text \<open>
  A grid of 2 by 2 cells without corners. \<open>regrid22\<close> and \<open>world22\<close> are the operator
  and the state that \<open>esmf_regrid_build\<close> returns for this grid as source and
  destination, with the method \<^verbatim>\<open>bilinear\<close>, no weight file and no extra dimensions,
  started in \<open>world0\<close>: the source array has reference 0, the destination array
  reference 1.
\<close>

definition grid22 :: "int grid" where
  "grid22 =
     (case fst (esmf_grid copy_lib (const_array [2, 2] True 10) (const_array [2, 2] True 20)
                  world0) of
        Inr g \<Rightarrow> g
      | Inl e \<Rightarrow> ESMF_Grid copy_lib [])"

definition field_src :: field where
  "field_src = \<lparr>data = 0, field_finalized = False\<rparr>"

definition field_dst :: field where
  "field_dst = \<lparr>data = 1, field_finalized = False\<rparr>"

definition regrid22 :: "unit regrid" where
  "regrid22 = \<lparr>srcfield = field_src, dstfield = field_dst, routehandle = (), finalized = False\<rparr>"

definition world22 :: "(int, unit) world" where
  "world22 =
     world0\<lparr>heap := ((heap world0)(0 := alloc (\<lambda>idx. 0) [2, 2]))(1 := alloc (\<lambda>idx. 0) [2, 2]),
            next_ref := 2, engine_calls := 1\<rparr>"

text \<open>A grid of 4 by 5 cells, as \<^verbatim>\<open>ESMF.Grid\<close> makes it.\<close>

definition grid45 :: "int grid" where
  "grid45 = ESMF_Grid copy_lib [4, 5]"



text \<open>The 2 by 2 grid with corners added.\<close>

definition grid22c :: "int grid" where
  "grid22c = fst (snd (add_corner copy_lib grid22 (const_array [3, 3] True 0)
                         (const_array [3, 3] True 0) world0))"

text \<open>
  The build on the 2 by 2 grid with the extra dimensions [3, 2]: its result and the
  state it leaves.
\<close>

definition built32 :: "(error + unit regrid) \<times> (int, unit) world" where
  "built32 = esmf_regrid_build copy_lib grid22 grid22 ''bilinear'' None (Some [3, 2]) world0"

section \<open>Properties\<close>

subsection \<open>Broadcasting\<close>

lemma compatible_rev_refl: "compatible_rev xs xs"
  by (induction xs) auto

lemma strip_unit_length: "length ss \<le> n \<Longrightarrow> strip_unit n ss = ss"
  by (cases ss) auto

lemma can_broadcast_refl: "can_broadcast s s"
  by (simp add: can_broadcast_def strip_unit_length compatible_rev_refl)

subsection \<open>The functions under the default action\<close>

lemma warn_f_contiguous_unfold:
  "warn_f_contiguous a w =
     (if f_contiguous a \<or> f_warning \<in> registry w then w
      else w\<lparr>warnings := warnings w @ [f_warning],
             registry := insert f_warning (registry w)\<rparr>)"
  by (simp add: warn_f_contiguous_def warn_f_contiguous_under_def warnings_warn_def)

lemma warn_default:
  "warn_f_contiguous_under default_action a w = (Inr (), warn_f_contiguous a w)"
  by (simp add: warn_f_contiguous_def warn_f_contiguous_under_def warnings_warn_def)

lemma warn_each_default:
  "warn_each default_action [a, b] w = (Inr (), warn_f_contiguous b (warn_f_contiguous a w))"
  unfolding warn_each.simps warn_default by simp


lemma esmf_grid_unfold:
  "esmf_grid lib lon lat w0 =
     (let w = warn_f_contiguous lat (warn_f_contiguous lon w0) in
      if ndim lon \<noteq> 2 then (Inl (AssertionError ''Input grid must be 2D array''), w)
      else if shape lon \<noteq> shape lat
        then (Inl (AssertionError ''lon and lat must have same shape''), w)
      else
        let staggerloc = CENTER;
            grid = ESMF_Grid lib (shape lon)
        in case get_coords grid 0 staggerloc of
             Inl e \<Rightarrow> (Inl e, w)
           | Inr lon_pointer \<Rightarrow>
        (case get_coords grid 1 staggerloc of
             Inl e \<Rightarrow> (Inl e, w)
           | Inr lat_pointer \<Rightarrow>
        (case setitem_ellipsis lon_pointer lon of
             Inl e \<Rightarrow> (Inl e, w)
           | Inr lon_pointer' \<Rightarrow>
        (case setitem_ellipsis lat_pointer lat of
             Inl e \<Rightarrow> (Inl e, w)
           | Inr lat_pointer' \<Rightarrow>
               (Inr (put_coords (put_coords grid 0 staggerloc lon_pointer')
                       1 staggerloc lat_pointer'), w)))))"
  by (simp only: esmf_grid_def esmf_grid_under_def warn_each_default prod.case sum.case Let_def)

lemma add_corner_unfold:
  "add_corner lib grid lon_b lat_b w0 =
     (let staggerloc = CORNER;
          w = warn_f_contiguous lat_b (warn_f_contiguous lon_b w0) in
      if ndim lon_b \<noteq> 2 then (Inl (AssertionError ''Input grid must be 2D array''), grid, w)
      else if shape lon_b \<noteq> shape lat_b
        then (Inl (AssertionError ''lon_b and lat_b must have same shape''), grid, w)
      else if shape lon_b \<noteq> map Suc (max_index grid)
        then (Inl (AssertionError ''lon_b should be size (Nx+1, Ny+1)''), grid, w)
      else
        let g1 = add_coords lib staggerloc grid
        in case get_coords g1 0 staggerloc of
             Inl e \<Rightarrow> (Inl e, g1, w)
           | Inr lon_b_pointer \<Rightarrow>
        (case get_coords g1 1 staggerloc of
             Inl e \<Rightarrow> (Inl e, g1, w)
           | Inr lat_b_pointer \<Rightarrow>
        (case setitem_ellipsis lon_b_pointer lon_b of
             Inl e \<Rightarrow> (Inl e, g1, w)
           | Inr lon_b_pointer' \<Rightarrow>
        (let g2 = put_coords g1 0 staggerloc lon_b_pointer'
         in case setitem_ellipsis lat_b_pointer lat_b of
             Inl e \<Rightarrow> (Inl e, g2, w)
           | Inr lat_b_pointer' \<Rightarrow>
               (Inr (), put_coords g2 1 staggerloc lat_b_pointer', w)))))"
  by (simp only: add_corner_def add_corner_under_def warn_each_default prod.case sum.case Let_def)

lemma esmf_regrid_apply_unfold:
  "esmf_regrid_apply lib r indata w0 =
     (let w = warn_f_contiguous indata w0;
          sourcefield = srcfield r;
          destfield = dstfield r
      in case setitem_ellipsis (heap w (data sourcefield)) indata of
           Inl e \<Rightarrow> (Inl e, w)
         | Inr src' \<Rightarrow>
             (case Regrid_call lib r sourcefield destfield
                     (w\<lparr>heap := (heap w)(data sourcefield := src')\<rparr>) of
                (Inl e, w2) \<Rightarrow> (Inl e, w2)
              | (Inr destfield', w2) \<Rightarrow> (Inr (data destfield'), w2)))"
  by (simp only: esmf_regrid_apply_def esmf_regrid_apply_under_def warn_default prod.case sum.case Let_def)

subsection \<open>Grid construction\<close>

lemma esmf_grid_ok:
  assumes "ndim lon = 2" "shape lon = shape lat"
  shows "\<exists>g. fst (esmf_grid lib lon lat w) = Inr g \<and> max_index g = shape lon
     \<and> (\<exists>lo la. coords g CENTER = Some (lo, la) \<and> shape lo = shape lon \<and> shape la = shape lat)"
  using assms unfolding esmf_grid_unfold
  by (simp add: Let_def ESMF_Grid_def get_coords_def put_coords_def alloc_def
        setitem_ellipsis_def can_broadcast_refl)

lemma esmf_grid_fail:
  assumes "\<not> (ndim lon = 2 \<and> shape lon = shape lat)"
  shows "\<exists>m. esmf_grid lib lon lat w
            = (Inl (AssertionError m), warn_f_contiguous lat (warn_f_contiguous lon w))"
  using assms unfolding esmf_grid_unfold
  by (auto simp add: Let_def)

text \<open>
  Claim C8. For two 2-dimensional arrays of the same shape \<open>esmf_grid\<close> returns a
  grid, and the grid stores that shape: \<open>max_index\<close> and both centre coordinate
  arrays have the shape of the input. When the shapes differ, or an array is not
  2-dimensional, the call fails on one of its two assertions (the ShapeError of the
  specification is Python's AssertionError).
\<close>

theorem esmf_grid_shape_contract:
  "(ndim lon = 2 \<and> ndim lat = 2 \<and> shape lon = shape lat \<longrightarrow>
      (\<exists>g lo la. fst (esmf_grid lib lon lat w) = Inr g \<and> max_index g = shape lon \<and>
         coords g CENTER = Some (lo, la) \<and> shape lo = shape lon \<and> shape la = shape lat)) \<and>
   (shape lon \<noteq> shape lat \<or> ndim lon \<noteq> 2 \<or> ndim lat \<noteq> 2 \<longrightarrow>
      (\<exists>m. fst (esmf_grid lib lon lat w) = Inl (AssertionError m)))"
proof (intro conjI impI)
  assume "ndim lon = 2 \<and> ndim lat = 2 \<and> shape lon = shape lat"
  then show "\<exists>g lo la. fst (esmf_grid lib lon lat w) = Inr g \<and> max_index g = shape lon \<and>
         coords g CENTER = Some (lo, la) \<and> shape lo = shape lon \<and> shape la = shape lat"
    using esmf_grid_ok [of lon lat lib w] by blast
next
  assume "shape lon \<noteq> shape lat \<or> ndim lon \<noteq> 2 \<or> ndim lat \<noteq> 2"
  then have "\<not> (ndim lon = 2 \<and> shape lon = shape lat)"
    by (auto simp: ndim_def)
  then show "\<exists>m. fst (esmf_grid lib lon lat w) = Inl (AssertionError m)"
    using esmf_grid_fail [of lon lat lib w] by auto
qed

theorem esmf_grid_shape_contract_witness:
  "(\<exists>g lo la. fst (esmf_grid copy_lib (const_array [4, 5] True 10) (const_array [4, 5] False 20)
                     world0) = Inr g \<and> max_index g = [4, 5] \<and>
      coords g CENTER = Some (lo, la) \<and> shape lo = [4, 5] \<and> shape la = [4, 5]) \<and>
   (\<exists>m. fst (esmf_grid copy_lib (const_array [4, 5] True 10) (const_array [5, 4] True 20) world0)
        = Inl (AssertionError m))"
  using esmf_grid_shape_contract [of "const_array [4, 5] True 10" "const_array [4, 5] False 20"
          copy_lib world0]
        esmf_grid_shape_contract [of "const_array [4, 5] True 10" "const_array [5, 4] True 20"
          copy_lib world0]
  by (simp add: const_array_def ndim_def)

subsection \<open>Corners\<close>

lemma add_corner_ok:
  assumes "ndim lon_b = 2" "shape lon_b = shape lat_b" "shape lon_b = map Suc (max_index g)"
  shows "fst (add_corner lib g lon_b lat_b w) = Inr ()"
  using assms unfolding add_corner_unfold
  by (simp add: Let_def add_coords_def get_coords_def put_coords_def alloc_def
        setitem_ellipsis_def can_broadcast_refl)

lemma add_corner_fail:
  assumes "\<not> (ndim lon_b = 2 \<and> shape lon_b = shape lat_b \<and> shape lon_b = map Suc (max_index g))"
  shows "\<exists>m. add_corner lib g lon_b lat_b w
            = (Inl (AssertionError m), g, warn_f_contiguous lat_b (warn_f_contiguous lon_b w))"
  using assms unfolding add_corner_unfold
  by (auto simp add: Let_def)

text \<open>
  Claim C7. On a grid of \<open>nx\<close> by \<open>ny\<close> cells \<open>add_corner\<close> succeeds exactly when both
  corner arrays are 2-dimensional, have the same shape and that shape is
  \<open>(nx + 1, ny + 1)\<close>; every other call fails with an AssertionError (the ShapeError
  of the specification). The witness is the grid of 4 by 5 cells: corners of shape
  (5, 6) are accepted, corners of shape (5, 5) are refused.
\<close>

theorem add_corner_shape_contract:
  assumes "max_index g = [nx, ny]"
  shows "(fst (add_corner lib g lon_b lat_b w) = Inr ()) =
           (ndim lon_b = 2 \<and> ndim lat_b = 2 \<and> shape lon_b = shape lat_b \<and>
            shape lon_b = [nx + 1, ny + 1]) \<and>
         (fst (add_corner lib g lon_b lat_b w) \<noteq> Inr () \<longrightarrow>
            (\<exists>m. fst (add_corner lib g lon_b lat_b w) = Inl (AssertionError m)))"
proof (cases "ndim lon_b = 2 \<and> shape lon_b = shape lat_b \<and> shape lon_b = map Suc (max_index g)")
  case True
  then have a: "ndim lon_b = 2" and b: "shape lon_b = shape lat_b"
    and c: "shape lon_b = map Suc (max_index g)"
    by blast+
  have ok: "fst (add_corner lib g lon_b lat_b w) = Inr ()"
    by (rule add_corner_ok [OF a b c])
  from a b c assms have "ndim lat_b = 2" and "shape lon_b = [nx + 1, ny + 1]"
    by (simp_all add: ndim_def)
  with a b ok show ?thesis by simp
next
  case False
  then obtain m where "fst (add_corner lib g lon_b lat_b w) = Inl (AssertionError m)"
    using add_corner_fail [of lon_b lat_b g lib w] by auto
  with False assms show ?thesis by (auto simp: ndim_def)
qed

theorem add_corner_shape_contract_witness:
  "max_index grid45 = [4, 5] \<and>
   fst (add_corner copy_lib grid45 (const_array [5, 6] True 0) (const_array [5, 6] True 0) world0)
     = Inr () \<and>
   (\<exists>m. fst (add_corner copy_lib grid45 (const_array [5, 5] True 0) (const_array [5, 5] True 0)
               world0) = Inl (AssertionError m))"
proof -
  have g: "max_index grid45 = [4, 5]"
    by (simp add: grid45_def ESMF_Grid_def)
  show ?thesis
    using g
      add_corner_shape_contract [OF g, of copy_lib "const_array [5, 6] True 0"
        "const_array [5, 6] True 0" world0]
      add_corner_shape_contract [OF g, of copy_lib "const_array [5, 5] True 0"
        "const_array [5, 5] True 0" world0]
    by (simp add: const_array_def ndim_def)
qed

text \<open>
  Claim C10. The three assertions of \<open>add_corner\<close> come before \<open>add_coords\<close>, and once
  they hold nothing after them can fail. So a call that fails returns the grid it was
  given: no corner storage is attached and \<open>has_corners\<close> is as before. In particular
  this is so for every pair of corner arrays that violates a shape precondition, and
  the failure is then an AssertionError.
\<close>

theorem add_corner_atomic_on_failure:
  "(fst (add_corner lib g lon_b lat_b w) \<noteq> Inr () \<longrightarrow>
      fst (snd (add_corner lib g lon_b lat_b w)) = g) \<and>
   (ndim lon_b \<noteq> 2 \<or> shape lon_b \<noteq> shape lat_b \<or> shape lon_b \<noteq> map Suc (max_index g) \<longrightarrow>
      (\<exists>m. fst (add_corner lib g lon_b lat_b w) = Inl (AssertionError m)) \<and>
      fst (snd (add_corner lib g lon_b lat_b w)) = g)"
proof (cases "ndim lon_b = 2 \<and> shape lon_b = shape lat_b \<and> shape lon_b = map Suc (max_index g)")
  case True
  then have a: "ndim lon_b = 2" and b: "shape lon_b = shape lat_b"
    and c: "shape lon_b = map Suc (max_index g)"
    by blast+
  have "fst (add_corner lib g lon_b lat_b w) = Inr ()"
    by (rule add_corner_ok [OF a b c])
  with a b c show ?thesis by simp
next
  case False
  then obtain m where "add_corner lib g lon_b lat_b w
            = (Inl (AssertionError m), g, warn_f_contiguous lat_b (warn_f_contiguous lon_b w))"
    using add_corner_fail [of lon_b lat_b g lib w] by auto
  then show ?thesis by simp
qed

theorem add_corner_atomic_on_failure_witness:
  "fst (add_corner copy_lib grid45 (const_array [5, 5] True 0) (const_array [5, 5] True 0) world0)
     \<noteq> Inr () \<and>
   fst (snd (add_corner copy_lib grid45 (const_array [5, 5] True 0) (const_array [5, 5] True 0)
     world0)) = grid45 \<and> \<not> has_corners grid45 \<and> coords grid45 CORNER = None"
proof -
  have "fst (add_corner copy_lib grid45 (const_array [5, 5] True 0) (const_array [5, 5] True 0)
          world0) \<noteq> Inr ()"
    by (simp add: add_corner_unfold grid45_def ESMF_Grid_def const_array_def ndim_def Let_def)
  then show ?thesis
    using add_corner_atomic_on_failure [of copy_lib grid45 "const_array [5, 5] True 0"
      "const_array [5, 5] True 0" world0]
    by (simp add: grid45_def ESMF_Grid_def)
qed

subsection \<open>Building an operator\<close>

lemma method_lookup_None:
  "(map_of method_dict method = None) =
     (method \<notin> {''bilinear'', ''conservative'', ''patch'', ''nearest_s2d'', ''nearest_d2s''})"
  by (simp add: method_dict_def)

lemma method_message:
  "''method should be chosen from '' @ py_str_list (map fst method_dict) =
   ''method should be chosen from ['bilinear', 'conservative', 'patch', 'nearest_s2d', 'nearest_d2s']''"
  by (simp add: py_str_list_def method_dict_def py_repr_def)

lemma conservative_lookup: "map_of method_dict ''conservative'' = Some CONSERVE"
  by (simp add: method_dict_def)

lemma grid22_eval:
  "grid22 = \<lparr>max_index = [2, 2],
     coords = (\<lambda>st. if st = CENTER
        then Some (\<lparr>shape = [2, 2], f_contiguous = True, elems = (\<lambda>idx. 10)\<rparr>,
                   \<lparr>shape = [2, 2], f_contiguous = True, elems = (\<lambda>idx. 20)\<rparr>)
        else None),
     has_corners = False\<rparr>"
  by (simp add: grid22_def esmf_grid_unfold const_array_def ndim_def Let_def ESMF_Grid_def
        get_coords_def put_coords_def setitem_ellipsis_def can_broadcast_def alloc_def
        copy_lib_def fun_eq_iff)

lemma grid22c_corners: "has_corners grid22c"
  by (simp add: grid22c_def grid22_eval add_corner_unfold const_array_def ndim_def Let_def
        add_coords_def get_coords_def put_coords_def setitem_ellipsis_def can_broadcast_def
        alloc_def)

text \<open>
  Claim C5. A method name outside the five names of \<open>method_dict\<close> makes
  \<open>esmf_regrid_build\<close> fail at once with a ValueError (the InvalidMethodError of the
  specification) whose message lists all five names, whatever the other arguments
  are. For each of the five names the lookup succeeds and the build goes on: if it
  fails, then with the error of the corner check, of the weight file check or of the
  engine, and it returns an operator when the corners are there for
  \<^verbatim>\<open>conservative\<close>, no file is in the way and the engine delivers weights.
\<close>

theorem invalid_method_rejected:
  "(method \<notin> {''bilinear'', ''conservative'', ''patch'', ''nearest_s2d'', ''nearest_d2s''} \<longrightarrow>
      esmf_regrid_build lib sg dg method fn ed w =
        (Inl (ValueError ''method should be chosen from ['bilinear', 'conservative', 'patch', 'nearest_s2d', 'nearest_d2s']''), w)) \<and>
   (method \<in> {''bilinear'', ''conservative'', ''patch'', ''nearest_s2d'', ''nearest_d2s''} \<longrightarrow>
      (\<exists>m. map_of method_dict method = Some m \<and>
        (\<forall>e. fst (esmf_regrid_build lib sg dg method fn ed w) = Inl e \<longrightarrow>
           e = ValueError ''source grid has no corner information. cannot use conservative regridding.'' \<or>
           e = ValueError ''destination grid has no corner information. cannot use conservative regridding.'' \<or>
           e = AssertionError ''Weight file already exists! Please remove it or use a new name.'' \<or>
           regrid_compute lib sg dg m = Inl e) \<and>
        ((method = ''conservative'' \<longrightarrow> has_corners sg \<and> has_corners dg) \<and>
         (\<forall>f. fn = Some f \<longrightarrow> \<not> path_exists w f) \<and>
         regrid_compute lib sg dg m = Inr rh \<longrightarrow>
           (\<exists>r. fst (esmf_regrid_build lib sg dg method fn ed w) = Inr r \<and> routehandle r = rh))))"
proof (intro conjI impI)
  assume "method \<notin> {''bilinear'', ''conservative'', ''patch'', ''nearest_s2d'', ''nearest_d2s''}"
  then have "map_of method_dict method = None"
    by (simp add: method_lookup_None)
  then show "esmf_regrid_build lib sg dg method fn ed w =
        (Inl (ValueError ''method should be chosen from ['bilinear', 'conservative', 'patch', 'nearest_s2d', 'nearest_d2s']''), w)"
    unfolding esmf_regrid_build_def by (simp only: option.case method_message)
next
  assume "method \<in> {''bilinear'', ''conservative'', ''patch'', ''nearest_s2d'', ''nearest_d2s''}"
  then have "map_of method_dict method \<noteq> None"
    by (simp add: method_lookup_None)
  then obtain m where m: "map_of method_dict method = Some m" by blast
  have errs: "\<forall>e. fst (esmf_regrid_build lib sg dg method fn ed w) = Inl e \<longrightarrow>
           e = ValueError ''source grid has no corner information. cannot use conservative regridding.'' \<or>
           e = ValueError ''destination grid has no corner information. cannot use conservative regridding.'' \<or>
           e = AssertionError ''Weight file already exists! Please remove it or use a new name.'' \<or>
           regrid_compute lib sg dg m = Inl e"
    unfolding esmf_regrid_build_def
    by (cases fn; cases "regrid_compute lib sg dg m")
       (simp_all add: m ESMF_Field_def ESMF_Regrid_def Let_def)
  have ok: "(method = ''conservative'' \<longrightarrow> has_corners sg \<and> has_corners dg) \<and>
         (\<forall>f. fn = Some f \<longrightarrow> \<not> path_exists w f) \<and>
         regrid_compute lib sg dg m = Inr rh \<longrightarrow>
           (\<exists>r. fst (esmf_regrid_build lib sg dg method fn ed w) = Inr r \<and> routehandle r = rh)"
    unfolding esmf_regrid_build_def
    by (cases fn) (simp_all add: m ESMF_Field_def ESMF_Regrid_def Let_def path_exists_def)
  from m errs ok show "\<exists>m. map_of method_dict method = Some m \<and>
        (\<forall>e. fst (esmf_regrid_build lib sg dg method fn ed w) = Inl e \<longrightarrow>
           e = ValueError ''source grid has no corner information. cannot use conservative regridding.'' \<or>
           e = ValueError ''destination grid has no corner information. cannot use conservative regridding.'' \<or>
           e = AssertionError ''Weight file already exists! Please remove it or use a new name.'' \<or>
           regrid_compute lib sg dg m = Inl e) \<and>
        ((method = ''conservative'' \<longrightarrow> has_corners sg \<and> has_corners dg) \<and>
         (\<forall>f. fn = Some f \<longrightarrow> \<not> path_exists w f) \<and>
         regrid_compute lib sg dg m = Inr rh \<longrightarrow>
           (\<exists>r. fst (esmf_regrid_build lib sg dg method fn ed w) = Inr r \<and> routehandle r = rh))"
    by (intro exI [of _ m] conjI)
qed

text \<open>
  The witness: \<^verbatim>\<open>not_a_method\<close> is refused, and each of the five names builds an
  operator on the 2 by 2 grid (with corners for \<^verbatim>\<open>conservative\<close>).
\<close>

theorem invalid_method_rejected_witness:
  "esmf_regrid_build copy_lib grid22 grid22 ''not_a_method'' None None world0 =
     (Inl (ValueError ''method should be chosen from ['bilinear', 'conservative', 'patch', 'nearest_s2d', 'nearest_d2s']''), world0) \<and>
   (\<exists>r. fst (esmf_regrid_build copy_lib grid22 grid22 ''bilinear'' None None world0) = Inr r) \<and>
   (\<exists>r. fst (esmf_regrid_build copy_lib grid22c grid22c ''conservative'' None None world0) = Inr r) \<and>
   (\<exists>r. fst (esmf_regrid_build copy_lib grid22 grid22 ''patch'' None None world0) = Inr r) \<and>
   (\<exists>r. fst (esmf_regrid_build copy_lib grid22 grid22 ''nearest_s2d'' None None world0) = Inr r) \<and>
   (\<exists>r. fst (esmf_regrid_build copy_lib grid22 grid22 ''nearest_d2s'' None None world0) = Inr r)"
proof -
  have c: "\<And>sg dg m. regrid_compute copy_lib sg dg m = Inr ()"
    by (simp add: copy_lib_def)
  have n: "\<forall>f. (None :: string option) = Some f \<longrightarrow> \<not> path_exists world0 f"
    by simp
  show ?thesis
    using grid22c_corners
      invalid_method_rejected [of "''not_a_method''" copy_lib grid22 grid22 None None world0 "()"]
      invalid_method_rejected [of "''bilinear''" copy_lib grid22 grid22 None None world0 "()"]
      invalid_method_rejected [of "''conservative''" copy_lib grid22c grid22c None None world0 "()"]
      invalid_method_rejected [of "''patch''" copy_lib grid22 grid22 None None world0 "()"]
      invalid_method_rejected [of "''nearest_s2d''" copy_lib grid22 grid22 None None world0 "()"]
      invalid_method_rejected [of "''nearest_d2s''" copy_lib grid22 grid22 None None world0 "()"]
    by (simp add: c)
qed

text \<open>
  Claim C6. With the method \<^verbatim>\<open>conservative\<close>: a source grid without corners makes the
  build fail with the ValueError that names the source grid; a source grid with and
  a destination grid without corners makes it fail with the ValueError that names the
  destination grid (the MissingCornersError of the specification). When both grids
  have corners the validation passes: with no weight file in the way and an engine
  that delivers weights, the build returns an operator.
\<close>

theorem conservative_needs_corners:
  "(\<not> has_corners sg \<longrightarrow>
      esmf_regrid_build lib sg dg ''conservative'' fn ed w =
        (Inl (ValueError ''source grid has no corner information. cannot use conservative regridding.''), w)) \<and>
   (has_corners sg \<and> \<not> has_corners dg \<longrightarrow>
      esmf_regrid_build lib sg dg ''conservative'' fn ed w =
        (Inl (ValueError ''destination grid has no corner information. cannot use conservative regridding.''), w)) \<and>
   (has_corners sg \<and> has_corners dg \<and> (\<forall>f. fn = Some f \<longrightarrow> \<not> path_exists w f) \<and>
    regrid_compute lib sg dg CONSERVE = Inr rh \<longrightarrow>
      (\<exists>r. fst (esmf_regrid_build lib sg dg ''conservative'' fn ed w) = Inr r \<and>
           routehandle r = rh \<and> \<not> finalized r))"
  unfolding esmf_regrid_build_def
  by (cases fn) (simp_all add: conservative_lookup ESMF_Field_def ESMF_Regrid_def Let_def
        path_exists_def)

theorem conservative_needs_corners_witness:
  "\<not> has_corners grid22 \<and> has_corners grid22c \<and>
   fst (esmf_regrid_build copy_lib grid22 grid22c ''conservative'' None None world0) =
     Inl (ValueError ''source grid has no corner information. cannot use conservative regridding.'') \<and>
   fst (esmf_regrid_build copy_lib grid22c grid22 ''conservative'' None None world0) =
     Inl (ValueError ''destination grid has no corner information. cannot use conservative regridding.'') \<and>
   (\<exists>r. fst (esmf_regrid_build copy_lib grid22c grid22c ''conservative'' None None world0) = Inr r)"
proof -
  have a: "\<not> has_corners grid22" by (simp add: grid22_eval)
  have c: "regrid_compute copy_lib grid22c grid22c CONSERVE = Inr ()"
    by (simp add: copy_lib_def)
  show ?thesis
    using a grid22c_corners c
      conservative_needs_corners [of grid22 copy_lib grid22c None None world0 "()"]
      conservative_needs_corners [of grid22c copy_lib grid22 None None world0 "()"]
      conservative_needs_corners [of grid22c copy_lib grid22c None None world0 "()"]
    by auto
qed

text \<open>
  Claim C4. Whenever a file exists at the path given for the weights,
  \<open>esmf_regrid_build\<close> fails, the regridding engine has not been entered and no file
  has changed. The checks run in the order method, corners, weight file. When the
  method is one of the five names and, for \<^verbatim>\<open>conservative\<close>, both grids have corners,
  the call fails with the AssertionError "Weight file already exists!" (the
  WeightFileExistsError of the specification); the two field arrays have been
  allocated by then and \<^verbatim>\<open>ESMF.Regrid\<close> has not been called. Otherwise the call has
  failed before, with the ValueError of the method lookup or of the corner check.
\<close>

theorem existing_weight_file_rejected:
  assumes "path_exists w f"
  shows "(\<exists>e. fst (esmf_regrid_build lib sg dg method (Some f) ed w) = Inl e) \<and>
         engine_calls (snd (esmf_regrid_build lib sg dg method (Some f) ed w)) = engine_calls w \<and>
         files (snd (esmf_regrid_build lib sg dg method (Some f) ed w)) = files w \<and>
         (method \<in> {''bilinear'', ''conservative'', ''patch'', ''nearest_s2d'', ''nearest_d2s''} \<and>
          (method = ''conservative'' \<longrightarrow> has_corners sg \<and> has_corners dg) \<longrightarrow>
            fst (esmf_regrid_build lib sg dg method (Some f) ed w) =
              Inl (AssertionError ''Weight file already exists! Please remove it or use a new name.'') \<and>
            next_ref (snd (esmf_regrid_build lib sg dg method (Some f) ed w)) = next_ref w + 2) \<and>
         (\<not> (method \<in> {''bilinear'', ''conservative'', ''patch'', ''nearest_s2d'', ''nearest_d2s''} \<and>
             (method = ''conservative'' \<longrightarrow> has_corners sg \<and> has_corners dg)) \<longrightarrow>
            (\<exists>m. esmf_regrid_build lib sg dg method (Some f) ed w = (Inl (ValueError m), w)))"
proof (cases "map_of method_dict method")
  case None
  then have "method \<notin> {''bilinear'', ''conservative'', ''patch'', ''nearest_s2d'', ''nearest_d2s''}"
    by (simp add: method_lookup_None)
  with None show ?thesis
    unfolding esmf_regrid_build_def by simp
next
  case (Some m)
  then have "map_of method_dict method \<noteq> None" by simp
  then have v: "method \<in> {''bilinear'', ''conservative'', ''patch'', ''nearest_s2d'', ''nearest_d2s''}"
    by (simp add: method_lookup_None)
  have b: "esmf_regrid_build lib sg dg method (Some f) ed w =
      (if method = ''conservative'' \<and> \<not> has_corners sg
       then (Inl (ValueError (''source grid has no corner information. ''
                    @ ''cannot use conservative regridding.'')), w)
       else if method = ''conservative'' \<and> \<not> has_corners dg
       then (Inl (ValueError (''destination grid has no corner information. ''
                    @ ''cannot use conservative regridding.'')), w)
       else (Inl (AssertionError
                    ''Weight file already exists! Please remove it or use a new name.''),
             snd (ESMF_Field lib dg ed (snd (ESMF_Field lib sg ed w)))))"
    using assms unfolding esmf_regrid_build_def
    by (simp add: Some ESMF_Field_def path_exists_def)
  show ?thesis
    unfolding b using v by (auto simp add: ESMF_Field_def)
qed

text \<open>
  The witness: with a file at \<^verbatim>\<open>weights.nc\<close>, the build with \<^verbatim>\<open>bilinear\<close> on the 2 by 2
  grid fails on the weight file, and the build with \<^verbatim>\<open>not_a_method\<close> fails on the
  method; in both the engine has not been entered.
\<close>

theorem existing_weight_file_rejected_witness:
  "path_exists world0 ''weights.nc'' \<and>
   fst (esmf_regrid_build copy_lib grid22 grid22 ''bilinear'' (Some ''weights.nc'') None world0) =
     Inl (AssertionError ''Weight file already exists! Please remove it or use a new name.'') \<and>
   engine_calls (snd (esmf_regrid_build copy_lib grid22 grid22 ''bilinear'' (Some ''weights.nc'')
     None world0)) = 0 \<and>
   next_ref (snd (esmf_regrid_build copy_lib grid22 grid22 ''bilinear'' (Some ''weights.nc'')
     None world0)) = 2 \<and>
   (\<exists>m. esmf_regrid_build copy_lib grid22 grid22 ''not_a_method'' (Some ''weights.nc'') None world0
        = (Inl (ValueError m), world0))"
proof -
  have c: "path_exists world0 ''weights.nc''" by (simp add: path_exists_def world0_def)
  have d: "engine_calls world0 = 0" "next_ref world0 = 0" by (simp_all add: world0_def)
  show ?thesis
    using c d
      existing_weight_file_rejected [OF c, of copy_lib grid22 grid22 "''bilinear''" None]
      existing_weight_file_rejected [OF c, of copy_lib grid22 grid22 "''not_a_method''" None]
    by simp
qed

subsection \<open>The layout warning\<close>













subsection \<open>Applying and releasing an operator\<close>

text \<open>The steps of \<open>esmf_regrid_apply\<close>, by whether numpy accepts the input.\<close>

lemma apply_accepted:
  assumes "can_broadcast (shape indata) (shape (heap w (data (srcfield r))))"
  shows "esmf_regrid_apply lib r indata w =
    (let src' = (heap w (data (srcfield r)))
                  \<lparr>elems := (\<lambda>idx. elems indata (src_index (shape indata) idx))\<rparr>;
         h = (heap w)(data (srcfield r) := src');
         w1 = (warn_f_contiguous indata w)\<lparr>heap := h, engine_calls := Suc (engine_calls w)\<rparr>
     in case regrid_run lib r (h (data (srcfield r))) (h (data (dstfield r))) of
          Inl e \<Rightarrow> (Inl e, w1)
        | Inr out \<Rightarrow>
            (Inr (data (dstfield r)),
             w1\<lparr>heap := h(data (dstfield r) := (h (data (dstfield r)))\<lparr>elems := out\<rparr>)\<rparr>))"
  using assms unfolding esmf_regrid_apply_unfold
  by (simp add: Let_def setitem_ellipsis_def Regrid_call_def warn_f_contiguous_unfold
           split: sum.splits)

lemma apply_rejected:
  assumes "\<not> can_broadcast (shape indata) (shape (heap w (data (srcfield r))))"
  shows "esmf_regrid_apply lib r indata w =
    (Inl (BroadcastError
            (strip_unit (length (shape (heap w (data (srcfield r))))) (shape indata))
            (shape (heap w (data (srcfield r))))),
     warn_f_contiguous indata w)"
  using assms unfolding esmf_regrid_apply_unfold
  by (simp add: Let_def setitem_ellipsis_def warn_f_contiguous_unfold)

lemma apply_shape_preserved:
  "shape (heap (snd (esmf_regrid_apply lib r a w)) p) = shape (heap w p)"
proof (cases "can_broadcast (shape a) (shape (heap w (data (srcfield r))))")
  case True
  show ?thesis
    by (simp add: apply_accepted [OF True] Let_def warn_f_contiguous_unfold split: sum.splits)
next
  case False
  then show ?thesis
    by (simp add: apply_rejected warn_f_contiguous_unfold)
qed

lemma apply_many_shape_preserved:
  "shape (heap (apply_many lib r as w) p) = shape (heap w p)"
  by (induction as arbitrary: w) (simp_all add: apply_shape_preserved)

lemma world22_heap:
  "heap world22 0 = \<lparr>shape = [2, 2], f_contiguous = True, elems = (\<lambda>idx. 0)\<rparr>"
  "heap world22 (Suc 0) = \<lparr>shape = [2, 2], f_contiguous = True, elems = (\<lambda>idx. 0)\<rparr>"
  "engine_calls world22 = 1"
  by (simp_all add: world22_def alloc_def world0_def)

lemma build_buffers:
  assumes "esmf_regrid_build lib sg dg method fn ed w0 = (Inr r, w)"
  shows "shape (heap w (data (srcfield r))) = max_index sg @ ndbounds_list ed \<and>
         shape (heap w (data (dstfield r))) = max_index dg @ ndbounds_list ed \<and>
         data (srcfield r) \<noteq> data (dstfield r) \<and> \<not> finalized r"
  using assms unfolding esmf_regrid_build_def
  by (auto simp add: ESMF_Field_def ESMF_Regrid_def Let_def alloc_def
        split: option.splits if_splits sum.splits)

lemma build22:
  "esmf_regrid_build copy_lib grid22 grid22 ''bilinear'' None None world0 = (Inr regrid22, world22)"
  unfolding esmf_regrid_build_def
  by (simp add: method_dict_def ESMF_Field_def ESMF_Regrid_def copy_lib_def world0_def
        world22_def regrid22_def field_src_def field_dst_def grid22_eval alloc_def
        ndbounds_list_def fun_eq_iff)

lemma built32_eval:
  "fst built32 = Inr regrid22"
  "heap (snd built32) 0 = \<lparr>shape = [2, 2, 3, 2], f_contiguous = True, elems = (\<lambda>idx. 0)\<rparr>"
  "heap (snd built32) (Suc 0) = \<lparr>shape = [2, 2, 3, 2], f_contiguous = True, elems = (\<lambda>idx. 0)\<rparr>"
  by (simp_all add: built32_def esmf_regrid_build_def method_dict_def ESMF_Field_def
        ESMF_Regrid_def copy_lib_def world0_def regrid22_def field_src_def field_dst_def
        grid22_eval alloc_def ndbounds_list_def)







text \<open>
  Claim C2, as the code has it. \<open>esmf_regrid_apply\<close> has no shape check of its own:
  the input is assigned into the array of the source field, and numpy broadcasts. For
  an operator as \<open>esmf_regrid_build\<close> returns it, on grids of shapes \<open>max_index sg\<close>
  and \<open>max_index dg\<close> with the extra dimensions \<open>ed\<close>, and after any number of
  earlier calls of \<open>esmf_regrid_apply\<close> on it:
  \<^item> an input of exactly the shape \<open>max_index sg @ ed\<close> can be broadcast;
  \<^item> an input that cannot be broadcast to that shape fails with numpy's broadcast
    ValueError (which names the input's shape without its excess leading dimensions
    of size 1), before the engine is entered;
  \<^item> an input that can be broadcast is handed to the engine, the call fails only if
    the engine fails, and the array it returns has the shape \<open>max_index dg @ ed\<close>.
\<close>

theorem apply_shape_contract:
  assumes "esmf_regrid_build lib sg dg method fn ed w0 = (Inr r, wb)"
    and "w = apply_many lib r earlier wb"
  shows "can_broadcast (max_index sg @ ndbounds_list ed) (max_index sg @ ndbounds_list ed) \<and>
    (\<not> can_broadcast (shape indata) (max_index sg @ ndbounds_list ed) \<longrightarrow>
       esmf_regrid_apply lib r indata w =
         (Inl (BroadcastError
                (strip_unit (length (max_index sg @ ndbounds_list ed)) (shape indata))
                (max_index sg @ ndbounds_list ed)),
          warn_f_contiguous indata w)) \<and>
    (can_broadcast (shape indata) (max_index sg @ ndbounds_list ed) \<longrightarrow>
       fst (esmf_regrid_apply lib r indata w) =
         (case regrid_run lib r
                 ((heap w (data (srcfield r)))
                    \<lparr>elems := (\<lambda>idx. elems indata (src_index (shape indata) idx))\<rparr>)
                 (heap w (data (dstfield r))) of
            Inl e \<Rightarrow> Inl e
          | Inr out \<Rightarrow> Inr (data (dstfield r))) \<and>
       shape (heap (snd (esmf_regrid_apply lib r indata w)) (data (dstfield r))) =
         max_index dg @ ndbounds_list ed)"
proof -
  note b = build_buffers [OF assms(1)]
  have s: "shape (heap w (data (srcfield r))) = max_index sg @ ndbounds_list ed"
    and d: "shape (heap w (data (dstfield r))) = max_index dg @ ndbounds_list ed"
    using b by (simp_all add: assms(2) apply_many_shape_preserved)
  have ne: "data (srcfield r) \<noteq> data (dstfield r)"
    using b by simp
  show ?thesis
  proof (intro conjI impI)
    show "can_broadcast (max_index sg @ ndbounds_list ed) (max_index sg @ ndbounds_list ed)"
      by (rule can_broadcast_refl)
  next
    assume "\<not> can_broadcast (shape indata) (max_index sg @ ndbounds_list ed)"
    then have "\<not> can_broadcast (shape indata) (shape (heap w (data (srcfield r))))"
      using s by simp
    then show "esmf_regrid_apply lib r indata w =
         (Inl (BroadcastError
                (strip_unit (length (max_index sg @ ndbounds_list ed)) (shape indata))
                (max_index sg @ ndbounds_list ed)),
          warn_f_contiguous indata w)"
      using s by (simp add: apply_rejected)
  next
    assume "can_broadcast (shape indata) (max_index sg @ ndbounds_list ed)"
    then have c: "can_broadcast (shape indata) (shape (heap w (data (srcfield r))))"
      using s by simp
    show "fst (esmf_regrid_apply lib r indata w) =
         (case regrid_run lib r
                 ((heap w (data (srcfield r)))
                    \<lparr>elems := (\<lambda>idx. elems indata (src_index (shape indata) idx))\<rparr>)
                 (heap w (data (dstfield r))) of
            Inl e \<Rightarrow> Inl e
          | Inr out \<Rightarrow> Inr (data (dstfield r)))"
      using ne by (simp add: apply_accepted [OF c] Let_def split: sum.splits)
    show "shape (heap (snd (esmf_regrid_apply lib r indata w)) (data (dstfield r))) =
         max_index dg @ ndbounds_list ed"
      using d by (simp add: apply_shape_preserved)
  qed
qed

text \<open>
  The witness is the operator with the extra dimensions [3, 2] on the 2 by 2 grid: an
  input of shape (2, 2, 3, 2) gives an output of shape (2, 2, 3, 2), and an input of
  shape (2, 2, 3, 3) is refused.
\<close>

theorem apply_shape_contract_witness:
  "esmf_regrid_build copy_lib grid22 grid22 ''bilinear'' None (Some [3, 2]) world0 =
     (Inr regrid22, snd built32) \<and>
   fst (esmf_regrid_apply copy_lib regrid22 (const_array [2, 2, 3, 2] True 5) (snd built32)) =
     Inr 1 \<and>
   shape (heap (snd (esmf_regrid_apply copy_lib regrid22 (const_array [2, 2, 3, 2] True 5)
     (snd built32))) 1) = [2, 2, 3, 2] \<and>
   fst (esmf_regrid_apply copy_lib regrid22 (const_array [2, 2, 3, 3] True 5) (snd built32)) =
     Inl (BroadcastError [2, 2, 3, 3] [2, 2, 3, 2])"
proof -
  have a: "esmf_regrid_build copy_lib grid22 grid22 ''bilinear'' None (Some [3, 2]) world0 =
     (Inr regrid22, snd built32)"
    using built32_eval(1) by (simp add: built32_def prod_eq_iff)
  have w: "snd built32 = apply_many copy_lib regrid22 [] (snd built32)" by simp
  have g: "max_index grid22 = [2, 2]" by (simp add: grid22_eval)
  have d: "data (dstfield regrid22) = 1" by (simp add: regrid22_def field_dst_def)
  have ok: "can_broadcast [2, 2, 3, 2] [2, 2, 3, 2]" and no: "\<not> can_broadcast [2, 2, 3, 3] [2, 2, 3, 2]"
    by (simp_all add: can_broadcast_def)
  show ?thesis
    using a ok no
      apply_shape_contract [OF a w, of "const_array [2, 2, 3, 2] True 5"]
      apply_shape_contract [OF a w, of "const_array [2, 2, 3, 3] True 5"]
    by (simp add: g d ndbounds_list_def const_array_def copy_lib_def)
qed

text \<open>
  Claim C2 as stated fails: the operator built on the 2 by 2 grid with no extra
  dimensions accepts an input of shape (1, 2), which is not (2, 2), and returns the
  destination array.
\<close>

theorem apply_shape_counterexample:
  "esmf_regrid_build copy_lib grid22 grid22 ''bilinear'' None None world0 = (Inr regrid22, world22) \<and>
   shape (const_array [1, 2] True 5) \<noteq> max_index grid22 @ ndbounds_list None \<and>
   fst (esmf_regrid_apply copy_lib regrid22 (const_array [1, 2] True 5) world22) = Inr 1"
proof -
  have "shape (const_array [1, 2] True 5) \<noteq> max_index grid22 @ ndbounds_list None"
    by (simp add: grid22_eval ndbounds_list_def const_array_def)
  moreover
  have "fst (esmf_regrid_apply copy_lib regrid22 (const_array [1, 2] True 5) world22) = Inr 1"
    by (simp add: esmf_regrid_apply_unfold Let_def
        warn_f_contiguous_unfold const_array_def world22_heap regrid22_def field_src_def
        field_dst_def setitem_ellipsis_def can_broadcast_def Regrid_call_def copy_lib_def)
  ultimately show ?thesis
    using build22 by blast
qed

text \<open>
  Claim C3, as the code has it. \<open>esmf_regrid_apply\<close> returns \<^verbatim>\<open>destfield.data\<close>, the
  array of the destination field itself, and makes no copy. Every call on the
  operator that returns, returns this same array; after a later call the array
  returned by an earlier one holds what the engine computed in the later call.
\<close>

theorem apply_returns_live_buffer:
  assumes "fst (esmf_regrid_apply lib r a1 w1) = Inr p"
    and "fst (esmf_regrid_apply lib r a2 w2) = Inr q"
    and "data (srcfield r) \<noteq> data (dstfield r)"
  shows "p = data (dstfield r) \<and> q = p \<and>
         regrid_run lib r
           ((heap w2 (data (srcfield r)))
              \<lparr>elems := (\<lambda>idx. elems a2 (src_index (shape a2) idx))\<rparr>)
           (heap w2 p)
         = Inr (elems (heap (snd (esmf_regrid_apply lib r a2 w2)) p))"
proof -
  have c1: "can_broadcast (shape a1) (shape (heap w1 (data (srcfield r))))"
  proof (rule ccontr)
    assume "\<not> can_broadcast (shape a1) (shape (heap w1 (data (srcfield r))))"
    then have "\<exists>e. fst (esmf_regrid_apply lib r a1 w1) = Inl e"
      by (simp add: apply_rejected)
    with assms(1) show False by auto
  qed
  have c2: "can_broadcast (shape a2) (shape (heap w2 (data (srcfield r))))"
  proof (rule ccontr)
    assume "\<not> can_broadcast (shape a2) (shape (heap w2 (data (srcfield r))))"
    then have "\<exists>e. fst (esmf_regrid_apply lib r a2 w2) = Inl e"
      by (simp add: apply_rejected)
    with assms(2) show False by auto
  qed
  have p: "p = data (dstfield r)"
    using assms(1) by (auto simp add: apply_accepted [OF c1] Let_def split: sum.splits)
  show ?thesis
    using assms(2) assms(3) p
    by (auto simp add: apply_accepted [OF c2] Let_def split: sum.splits)
qed

theorem apply_returns_live_buffer_witness:
  "fst (esmf_regrid_apply copy_lib regrid22 (const_array [2, 2] True 1) world22) = Inr 1 \<and>
   fst (esmf_regrid_apply copy_lib regrid22 (const_array [2, 2] True 2)
         (snd (esmf_regrid_apply copy_lib regrid22 (const_array [2, 2] True 1) world22))) = Inr 1 \<and>
   1 = data (dstfield regrid22)"
proof -
  have a: "fst (esmf_regrid_apply copy_lib regrid22 (const_array [2, 2] True 1) world22) = Inr 1"
    by (simp add: esmf_regrid_apply_unfold Let_def warn_f_contiguous_unfold const_array_def
          world22_heap regrid22_def field_src_def field_dst_def
          setitem_ellipsis_def can_broadcast_def Regrid_call_def copy_lib_def)
  have b: "fst (esmf_regrid_apply copy_lib regrid22 (const_array [2, 2] True 2)
         (snd (esmf_regrid_apply copy_lib regrid22 (const_array [2, 2] True 1) world22))) = Inr 1"
    by (simp add: esmf_regrid_apply_unfold Let_def warn_f_contiguous_unfold const_array_def
          world22_heap regrid22_def field_src_def field_dst_def
          setitem_ellipsis_def can_broadcast_def Regrid_call_def copy_lib_def)
  have c: "data (srcfield regrid22) \<noteq> data (dstfield regrid22)"
    by (simp add: regrid22_def field_src_def field_dst_def)
  show ?thesis
    using a b apply_returns_live_buffer [OF a b c] by simp
qed

text \<open>
  Claim C3 as stated fails. The operator on the 2 by 2 grid, with the copying engine,
  is applied to an array of ones: the array returned (reference 1) holds 1. It is
  then applied to an array of twos: the call returns the same reference, and the
  array returned by the first call now holds 2.
\<close>

theorem apply_output_aliased_counterexample:
  "fst (esmf_regrid_apply copy_lib regrid22 (const_array [2, 2] True 1) world22) = Inr 1 \<and>
   elems (heap (snd (esmf_regrid_apply copy_lib regrid22 (const_array [2, 2] True 1) world22)) 1)
     [0, 0] = 1 \<and>
   fst (esmf_regrid_apply copy_lib regrid22 (const_array [2, 2] True 2)
         (snd (esmf_regrid_apply copy_lib regrid22 (const_array [2, 2] True 1) world22))) = Inr 1 \<and>
   elems (heap (snd (esmf_regrid_apply copy_lib regrid22 (const_array [2, 2] True 2)
         (snd (esmf_regrid_apply copy_lib regrid22 (const_array [2, 2] True 1) world22)))) 1)
     [0, 0] = 2"
  by (simp add: esmf_regrid_apply_unfold Let_def warn_f_contiguous_unfold const_array_def
          world22_heap regrid22_def field_src_def field_dst_def
          setitem_ellipsis_def can_broadcast_def Regrid_call_def copy_lib_def)


end
